theory Spec2Isabelle
  imports Main "HOL-Library.AList"
begin

section \<open>Python values\<close>

text \<open>
  The values that \<^verbatim>\<open>response.json()\<close> produces and that \<^verbatim>\<open>json.dumps\<close> consumes.
  A dict is an association list in insertion order; \<^verbatim>\<open>d[k] = v\<close> is \<open>AList.update\<close>
  (an existing key keeps its place, a new key goes last). A str is a list of characters
  read as code points below 256. The code does no arithmetic on floats: a float is
  known by the two things the code can observe of it, whether it is zero (truthiness)
  and the text the encoder writes for it.
\<close>

datatype pyfloat = PyFloat (is_zero: bool) (float_repr: string)

datatype pyval =
    PNone
  | PBool bool
  | PInt int
  | PFloat pyfloat
  | PStr string
  | PList "pyval list"
  | PDict (items: "(string \<times> pyval) list")

type_synonym pydict = "(string \<times> pyval) list"

text \<open>An exception (a subclass of \<^verbatim>\<open>Exception\<close>): its class name and \<^verbatim>\<open>str(e)\<close>.\<close>

datatype exn = Exn (exn_class: string) (exn_str: string)

fun type_name :: "pyval \<Rightarrow> string" where
  "type_name PNone = ''NoneType''"
| "type_name (PBool b) = ''bool''"
| "type_name (PInt i) = ''int''"
| "type_name (PFloat f) = ''float''"
| "type_name (PStr s) = ''str''"
| "type_name (PList xs) = ''list''"
| "type_name (PDict kvs) = ''dict''"

text \<open>Truth value testing, as \<^verbatim>\<open>if v:\<close>, \<^verbatim>\<open>not v\<close> and \<^verbatim>\<open>a or b\<close> use it.\<close>

fun truthy :: "pyval \<Rightarrow> bool" where
  "truthy PNone = False"
| "truthy (PBool b) = b"
| "truthy (PInt i) = (i \<noteq> 0)"
| "truthy (PFloat f) = (\<not> is_zero f)"
| "truthy (PStr s) = (s \<noteq> [])"
| "truthy (PList xs) = (xs \<noteq> [])"
| "truthy (PDict kvs) = (kvs \<noteq> [])"

definition py_or :: "pyval \<Rightarrow> pyval \<Rightarrow> pyval" where
  "py_or a b = (if truthy a then a else b)"

definition opt_str :: "string option \<Rightarrow> pyval" where
  "opt_str s = (case s of None \<Rightarrow> PNone | Some x \<Rightarrow> PStr x)"

definition opt_int :: "int option \<Rightarrow> pyval" where
  "opt_int i = (case i of None \<Rightarrow> PNone | Some x \<Rightarrow> PInt x)"

definition opt_bool :: "bool option \<Rightarrow> pyval" where
  "opt_bool b = (case b of None \<Rightarrow> PNone | Some x \<Rightarrow> PBool x)"

text \<open>A name between single quotes, as the interpreter's messages write it.\<close>

definition quoted :: "string \<Rightarrow> string" where
  "quoted s = [CHR 0x27] @ s @ [CHR 0x27]"

text \<open>\<^verbatim>\<open>d.get(k, default)\<close> on a dict.\<close>

definition dict_get :: "pydict \<Rightarrow> string \<Rightarrow> pyval \<Rightarrow> pyval" where
  "dict_get d k dflt = (case map_of d k of None \<Rightarrow> dflt | Some v \<Rightarrow> v)"

text \<open>\<^verbatim>\<open>v.get(k, default)\<close> on any value: only a dict has the method.\<close>

definition py_get :: "pyval \<Rightarrow> string \<Rightarrow> pyval \<Rightarrow> exn + pyval" where
  "py_get v k dflt =
     (case v of
        PDict d \<Rightarrow> Inr (dict_get d k dflt)
      | _ \<Rightarrow> Inl (Exn ''AttributeError''
                 (quoted (type_name v) @ '' object has no attribute '' @ quoted ''get'')))"

text \<open>
  The elements a \<^verbatim>\<open>for\<close> loop visits: the elements of a list, the keys of a dict, the
  characters of a str; any other value is not iterable.
\<close>

definition py_iter :: "pyval \<Rightarrow> exn + pyval list" where
  "py_iter v =
     (case v of
        PList xs \<Rightarrow> Inr xs
      | PDict d \<Rightarrow> Inr (map (\<lambda>kv. PStr (fst kv)) d)
      | PStr s \<Rightarrow> Inr (map (\<lambda>c. PStr [c]) s)
      | _ \<Rightarrow> Inl (Exn ''TypeError'' (quoted (type_name v) @ '' object is not iterable'')))"

text \<open>Sequencing of steps that may raise: the first exception ends the block.\<close>

definition and_then :: "exn + 'a \<Rightarrow> ('a \<Rightarrow> exn + 'b) \<Rightarrow> exn + 'b" where
  "and_then m f = (case m of Inl e \<Rightarrow> Inl e | Inr x \<Rightarrow> f x)"

section \<open>json.dumps with indent=4\<close>

definition digit_char :: "nat \<Rightarrow> char" where
  "digit_char n = char_of (48 + n)"

fun nat_str :: "nat \<Rightarrow> string" where
  "nat_str n = (if n < 10 then [digit_char n] else nat_str (n div 10) @ [digit_char (n mod 10)])"

declare nat_str.simps [simp del]

definition int_str :: "int \<Rightarrow> string" where
  "int_str i = (if i < 0 then CHR ''-'' # nat_str (nat (- i)) else nat_str (nat i))"

definition hex_digit :: "nat \<Rightarrow> char" where
  "hex_digit n = (if n < 10 then char_of (48 + n) else char_of (87 + n))"

text \<open>
  The encoder's string escaping with \<^verbatim>\<open>ensure_ascii\<close>: backslash, double quote and
  the five short escapes, every other character outside space..tilde as
  \<^verbatim>\<open>\u00xx\<close>.
\<close>

definition escape_char :: "char \<Rightarrow> string" where
  "escape_char c =
     (if c = CHR 0x5C then [CHR 0x5C, CHR 0x5C]
      else if c = CHR 0x22 then [CHR 0x5C, CHR 0x22]
      else if c = CHR 0x08 then [CHR 0x5C, CHR ''b'']
      else if c = CHR 0x0C then [CHR 0x5C, CHR ''f'']
      else if c = CHR 0x0A then [CHR 0x5C, CHR ''n'']
      else if c = CHR 0x0D then [CHR 0x5C, CHR ''r'']
      else if c = CHR 0x09 then [CHR 0x5C, CHR ''t'']
      else if 32 \<le> (of_char c :: nat) \<and> (of_char c :: nat) \<le> 126 then [c]
      else [CHR 0x5C, CHR ''u'', CHR ''0'', CHR ''0'',
            hex_digit ((of_char c :: nat) div 16), hex_digit ((of_char c :: nat) mod 16)])"

definition encode_str :: "string \<Rightarrow> string" where
  "encode_str s = [CHR 0x22] @ concat (map escape_char s) @ [CHR 0x22]"

definition newline_indent :: "nat \<Rightarrow> string" where
  "newline_indent level = CHR 0x0A # replicate (4 * level) CHR '' ''"

fun join :: "string \<Rightarrow> string list \<Rightarrow> string" where
  "join sep [] = []"
| "join sep [x] = x"
| "join sep (x # y # ys) = x @ sep @ join sep (y # ys)"

fun encode_at :: "nat \<Rightarrow> pyval \<Rightarrow> string" where
  "encode_at level PNone = ''null''"
| "encode_at level (PBool b) = (if b then ''true'' else ''false'')"
| "encode_at level (PInt i) = int_str i"
| "encode_at level (PFloat f) = float_repr f"
| "encode_at level (PStr s) = encode_str s"
| "encode_at level (PList xs) =
     (if xs = [] then ''[]''
      else ''['' @ newline_indent (Suc level)
           @ join ('','' @ newline_indent (Suc level)) (map (encode_at (Suc level)) xs)
           @ newline_indent level @ '']'')"
| "encode_at level (PDict kvs) =
     (if kvs = [] then ''{}''
      else ''{'' @ newline_indent (Suc level)
           @ join ('','' @ newline_indent (Suc level))
               (map (\<lambda>kv. encode_str (fst kv) @ '': '' @ encode_at (Suc level) (snd kv)) kvs)
           @ newline_indent level @ ''}'')"

definition json_dumps :: "pyval \<Rightarrow> string" where
  "json_dumps v = encode_at 0 v"

section \<open>The client\<close>

text \<open>
  \<^verbatim>\<open>requests\<close> is an external collaborator. A request is what \<^verbatim>\<open>session.get\<close> sends;
  a response is known by its two methods the code calls: \<^verbatim>\<open>raise_for_status()\<close> (the
  exception it raises on a non-success status, if any) and \<^verbatim>\<open>json()\<close> (the parsed body,
  or the exception raised on a malformed one). The transport answers a request with a
  response or raises.
\<close>

record request =
  url :: string
  headers :: pydict
  params :: pydict

record response =
  raise_for_status :: "exn option"
  json :: "exn + pyval"

type_synonym transport = "request \<Rightarrow> exn + response"

text \<open>What a call leaves behind: the requests sent and the lines logged (level, text).\<close>

record world =
  sent :: "request list"
  logged :: "(string \<times> string) list"

definition logger_info :: "string \<Rightarrow> world \<Rightarrow> world" where
  "logger_info msg w = w\<lparr>logged := logged w @ [(''INFO'', msg)]\<rparr>"

definition logger_error :: "string \<Rightarrow> world \<Rightarrow> world" where
  "logger_error msg w = w\<lparr>logged := logged w @ [(''ERROR'', msg)]\<rparr>"

text \<open>The attributes \<^verbatim>\<open>__init__\<close> sets on \<^verbatim>\<open>self\<close>, with their annotated types.\<close>

record BraveSearch =
  api_key :: "string option"
  show_results :: bool
  country :: string
  search_lang :: string
  ui_lang :: string
  safesearch :: string
  text_decorations :: bool
  spellcheck :: bool
  num_results :: "int option"
  freshness :: "string option"
  result_filter :: "string option"
  goggles_id :: "string option"
  units :: "string option"
  extra_snippets :: "bool option"
  summary :: bool
  session_headers :: pydict

definition BASE_URL :: string where
  "BASE_URL = ''https://api.search.brave.com/res/v1/web/search''"

text \<open>The arguments of the constructor and their defaults.\<close>

record init_args =
  arg_api_key :: "string option"
  arg_country :: string
  arg_search_lang :: string
  arg_ui_lang :: string
  arg_safesearch :: string
  arg_text_decorations :: bool
  arg_spellcheck :: bool
  arg_num_results :: "int option"
  arg_freshness :: "string option"
  arg_result_filter :: "string option"
  arg_goggles_id :: "string option"
  arg_units :: "string option"
  arg_extra_snippets :: "bool option"
  arg_summary :: bool
  arg_show_results :: bool

definition default_args :: init_args where
  "default_args =
     \<lparr>arg_api_key = None, arg_country = ''us'', arg_search_lang = ''en'',
      arg_ui_lang = ''en-US'', arg_safesearch = ''moderate'', arg_text_decorations = True,
      arg_spellcheck = True, arg_num_results = None, arg_freshness = None,
      arg_result_filter = None, arg_goggles_id = None, arg_units = None,
      arg_extra_snippets = None, arg_summary = True, arg_show_results = False\<rparr>"

text \<open>
  \<^verbatim>\<open>__init__\<close>. The environment is a function from variable names to values;
  \<^verbatim>\<open>api_key or getenv(...)\<close> takes the argument when it is a non-empty string.
\<close>

definition BraveSearch_init ::
  "(string \<Rightarrow> string option) \<Rightarrow> init_args \<Rightarrow> world \<Rightarrow> BraveSearch \<times> world" where
  "BraveSearch_init getenv a w =
     (let key = (if truthy (opt_str (arg_api_key a)) then arg_api_key a
                 else getenv ''BRAVE_SEARCH_API_KEY'');
          w' = (if \<not> truthy (opt_str key)
                then logger_error
                  ''BRAVE_SEARCH_API_KEY not set. Please set the BRAVE_SEARCH_API_KEY environment variable.'' w
                else w)
      in (\<lparr>api_key = key, show_results = arg_show_results a, country = arg_country a,
           search_lang = arg_search_lang a, ui_lang = arg_ui_lang a,
           safesearch = arg_safesearch a, text_decorations = arg_text_decorations a,
           spellcheck = arg_spellcheck a, num_results = arg_num_results a,
           freshness = arg_freshness a, result_filter = arg_result_filter a,
           goggles_id = arg_goggles_id a, units = arg_units a,
           extra_snippets = arg_extra_snippets a, summary = arg_summary a,
           session_headers = [(''X-Subscription-Token'', opt_str key)]\<rparr>, w'))"

subsection \<open>Request assembly\<close>

text \<open>The dict literal of the source, then the comprehension that drops every None.\<close>

definition search_kwargs :: "BraveSearch \<Rightarrow> string \<Rightarrow> int \<Rightarrow> pydict" where
  "search_kwargs self query n =
     filter (\<lambda>kv. snd kv \<noteq> PNone)
       [(''q'', PStr query),
        (''country'', PStr (country self)),
        (''search_lang'', PStr (search_lang self)),
        (''ui_lang'', PStr (ui_lang self)),
        (''safesearch'', PStr (safesearch self)),
        (''text_decorations'', PBool (text_decorations self)),
        (''spellcheck'', PBool (spellcheck self)),
        (''count'', py_or (opt_int (num_results self)) (PInt n)),
        (''freshness'', opt_str (freshness self)),
        (''result_filter'', opt_str (result_filter self)),
        (''goggles_id'', opt_str (goggles_id self)),
        (''units'', opt_str (units self)),
        (''extra_snippets'', opt_bool (extra_snippets self)),
        (''summary'', PBool (summary self))]"

definition build_request :: "BraveSearch \<Rightarrow> string \<Rightarrow> int \<Rightarrow> request" where
  "build_request self query n =
     \<lparr>url = BASE_URL, headers = session_headers self, params = search_kwargs self query n\<rparr>"

definition session_get :: "transport \<Rightarrow> request \<Rightarrow> world \<Rightarrow> (exn + response) \<times> world" where
  "session_get tr req w = (tr req, w\<lparr>sent := sent w @ [req]\<rparr>)"

subsection \<open>Result projection\<close>

text \<open>The body of the loop over \<^verbatim>\<open>web.results\<close>: one entry to one output object.\<close>

definition result_dict_of :: "pyval \<Rightarrow> exn + pyval" where
  "result_dict_of result =
     and_then (py_get result ''url'' PNone) (\<lambda>u.
     and_then (py_get result ''title'' PNone) (\<lambda>t.
     and_then (py_get result ''description'' PNone) (\<lambda>d.
     and_then (py_get result ''extra_snippets'' PNone) (\<lambda>c.
       if truthy c
       then and_then (py_get result ''extra_snippets'' PNone) (\<lambda>es.
              Inr (PDict (AList.update ''extra_snippets'' es
                     [(''url'', u), (''title'', t), (''description'', d)])))
       else Inr (PDict [(''url'', u), (''title'', t), (''description'', d)])))))"

fun parse_web :: "pyval list \<Rightarrow> pyval list \<Rightarrow> exn + pyval list" where
  "parse_web [] parsed = Inr parsed"
| "parse_web (result # rest) parsed =
     and_then (result_dict_of result) (\<lambda>result_dict. parse_web rest (parsed @ [result_dict]))"

definition parse_web_results :: "pyval \<Rightarrow> exn + pyval list" where
  "parse_web_results brave_results =
     and_then (py_get brave_results ''web'' (PDict [])) (\<lambda>web.
     and_then (py_get web ''results'' (PList [])) (\<lambda>results.
     and_then (py_iter results) (\<lambda>rs. parse_web rs [])))"

text \<open>The summary dict built from a summarizer that is a dict.\<close>

definition summary_dict_of :: "pydict \<Rightarrow> pydict" where
  "summary_dict_of summarizer =
     (let summary_dict =
            [(''type'', dict_get summarizer ''type'' PNone),
             (''status'', dict_get summarizer ''status'' PNone),
             (''title'', dict_get summarizer ''title'' PNone),
             (''summary'', dict_get summarizer ''summary'' (PList [])),
             (''followups'', dict_get summarizer ''followups'' (PList []))];
          summary_dict =
            (case map_of summarizer ''enrichments'' of
               None \<Rightarrow> summary_dict
             | Some v \<Rightarrow> AList.update ''enrichments'' v summary_dict);
          summary_dict =
            (case map_of summarizer ''entities_infos'' of
               None \<Rightarrow> summary_dict
             | Some v \<Rightarrow> AList.update ''entities_infos'' v summary_dict)
      in summary_dict)"

text \<open>
  The summarizer section. A truthy summarizer that is not a dict fails at its first
  \<^verbatim>\<open>.get\<close>.
\<close>

definition parse_summarizer :: "pyval \<Rightarrow> pyval list \<Rightarrow> exn + pyval list" where
  "parse_summarizer brave_results parsed =
     and_then (py_get brave_results ''summarizer'' (PDict [])) (\<lambda>summarizer.
       if truthy summarizer
       then (case summarizer of
               PDict sd \<Rightarrow> Inr (parsed @ [PDict [(''summarizer'', PDict (summary_dict_of sd))]])
             | _ \<Rightarrow> and_then (py_get summarizer ''type'' PNone) (\<lambda>t. Inr parsed))
       else Inr parsed)"

definition parse_results :: "pyval \<Rightarrow> exn + pyval list" where
  "parse_results brave_results =
     and_then (parse_web_results brave_results) (parse_summarizer brave_results)"

subsection \<open>search\_brave and run\<close>

definition key_missing :: "BraveSearch \<Rightarrow> bool" where
  "key_missing self = (\<not> truthy (opt_str (api_key self)))"

text \<open>The body of the \<^verbatim>\<open>try\<close> block: the string returned, or the exception raised.\<close>

definition search_brave_try ::
  "BraveSearch \<Rightarrow> string \<Rightarrow> int \<Rightarrow> transport \<Rightarrow> world \<Rightarrow> (exn + string) \<times> world" where
  "search_brave_try self query n tr w =
     (let w1 = logger_info (''Searching Brave for: '' @ query) w;
          (got, w2) = session_get tr (build_request self query n) w1
      in case got of
           Inl e \<Rightarrow> (Inl e, w2)
         | Inr resp \<Rightarrow>
             (case raise_for_status resp of
                Some e \<Rightarrow> (Inl e, w2)
              | None \<Rightarrow>
                  (case json resp of
                     Inl e \<Rightarrow> (Inl e, w2)
                   | Inr brave_results \<Rightarrow>
                       (case parse_results brave_results of
                          Inl e \<Rightarrow> (Inl e, w2)
                        | Inr brave_results_parsed \<Rightarrow>
                            (let parsed_results = json_dumps (PList brave_results_parsed)
                             in (Inr parsed_results,
                                 if show_results self then logger_info parsed_results w2
                                 else w2))))))"

definition search_brave ::
  "BraveSearch \<Rightarrow> string \<Rightarrow> int \<Rightarrow> transport \<Rightarrow> world \<Rightarrow> string \<times> world" where
  "search_brave self query n tr w =
     (if key_missing self then (''Please set the BRAVE_SEARCH_API_KEY'', w)
      else case search_brave_try self query n tr w of
             (Inr parsed_results, w') \<Rightarrow> (parsed_results, w')
           | (Inl e, w') \<Rightarrow>
               (''Error: '' @ exn_str e,
                logger_error (''Failed to search Brave '' @ exn_str e) w'))"

definition run ::
  "BraveSearch \<Rightarrow> string \<Rightarrow> int \<Rightarrow> transport \<Rightarrow> world \<Rightarrow> string \<times> world" where
  "run self query n tr w = search_brave self query n tr w"

text \<open>The calls that leave \<^verbatim>\<open>num_results\<close> to its default.\<close>

definition default_num_results :: int where
  "default_num_results = 10"

definition search_brave_1 :: "BraveSearch \<Rightarrow> string \<Rightarrow> transport \<Rightarrow> world \<Rightarrow> string \<times> world" where
  "search_brave_1 self query tr w = search_brave self query default_num_results tr w"

definition run_1 :: "BraveSearch \<Rightarrow> string \<Rightarrow> transport \<Rightarrow> world \<Rightarrow> string \<times> world" where
  "run_1 self query tr w = run self query default_num_results tr w"

subsection \<open>Concrete clients, transports and responses\<close>

definition empty_world :: world where
  "empty_world = \<lparr>sent = [], logged = []\<rparr>"

definition no_env :: "string \<Rightarrow> string option" where
  "no_env name = None"

text \<open>The client built with a key and every other argument at its default.\<close>

definition example_self :: BraveSearch where
  "example_self =
     fst (BraveSearch_init no_env (default_args\<lparr>arg_api_key := Some ''secret''\<rparr>) empty_world)"

text \<open>A transport that answers every request with status 200 and the given body.\<close>

definition respond :: "pyval \<Rightarrow> transport" where
  "respond v req = Inr \<lparr>raise_for_status = None, json = Inr v\<rparr>"

text \<open>A transport that cannot connect.\<close>

definition unreachable :: transport where
  "unreachable req = Inl (Exn ''ConnectionError'' ''connection refused'')"

definition paris_entry :: pydict where
  "paris_entry =
     [(''url'', PStr ''https://x.com''), (''title'', PStr ''Paris''),
      (''description'', PStr ''Capital of France'')]"

section \<open>Basic facts\<close>

lemma example_self_simps:
  "api_key example_self = Some ''secret''"
  "num_results example_self = None"
  "freshness example_self = None"
  "result_filter example_self = None"
  "goggles_id example_self = None"
  "units example_self = None"
  "extra_snippets example_self = None"
  "show_results example_self = False"
  by (simp_all add: example_self_def BraveSearch_init_def default_args_def opt_str_def Let_def)

lemma example_self_has_key: "\<not> key_missing example_self"
  by (simp add: key_missing_def example_self_simps opt_str_def)

lemma search_kwargs_count:
  "map_of (search_kwargs self query n) ''count'' =
     Some (PInt (case num_results self of None \<Rightarrow> n | Some c \<Rightarrow> if c = 0 then n else c))"
  by (simp add: search_kwargs_def py_or_def opt_int_def opt_str_def opt_bool_def
           split: option.splits)

lemma search_kwargs_q: "map_of (search_kwargs self query n) ''q'' = Some (PStr query)"
  by (simp add: search_kwargs_def)

lemma search_brave_try_fst:
  "fst (search_brave_try self query n tr w) =
     (case tr (build_request self query n) of
        Inl e \<Rightarrow> Inl e
      | Inr resp \<Rightarrow>
          (case raise_for_status resp of
             Some e \<Rightarrow> Inl e
           | None \<Rightarrow>
               (case json resp of
                  Inl e \<Rightarrow> Inl e
                | Inr v \<Rightarrow>
                    (case parse_results v of
                       Inl e \<Rightarrow> Inl e
                     | Inr ps \<Rightarrow> Inr (json_dumps (PList ps))))))"
  by (simp add: search_brave_try_def session_get_def Let_def split: sum.splits option.splits)

lemma search_brave_try_sent:
  "sent (snd (search_brave_try self query n tr w)) = sent w @ [build_request self query n]"
  by (simp add: search_brave_try_def session_get_def Let_def logger_info_def
           split: sum.splits option.splits)

lemma search_brave_fst:
  "\<not> key_missing self \<Longrightarrow>
   fst (search_brave self query n tr w) =
     (case fst (search_brave_try self query n tr w) of
        Inl e \<Rightarrow> ''Error: '' @ exn_str e
      | Inr s \<Rightarrow> s)"
  by (simp add: search_brave_def split: prod.splits sum.splits)

lemma search_brave_sent:
  assumes "\<not> key_missing self"
  shows "sent (snd (search_brave self query n tr w)) = sent w @ [build_request self query n]"
proof -
  obtain r w' where eq: "search_brave_try self query n tr w = (r, w')"
    by (cases "search_brave_try self query n tr w")
  with search_brave_try_sent [of self query n tr w]
  have "sent w' = sent w @ [build_request self query n]" by simp
  then show ?thesis
    using assms eq by (cases r) (simp_all add: search_brave_def logger_error_def)
qed

lemma search_kwargs_no_None: "PNone \<notin> snd ` set (search_kwargs self query n)"
  by (auto simp add: search_kwargs_def)

lemma search_kwargs_optional_keys:
  "(''freshness'' \<in> fst ` set (search_kwargs self query n)) = (freshness self \<noteq> None)"
  "(''result_filter'' \<in> fst ` set (search_kwargs self query n)) = (result_filter self \<noteq> None)"
  "(''goggles_id'' \<in> fst ` set (search_kwargs self query n)) = (goggles_id self \<noteq> None)"
  "(''units'' \<in> fst ` set (search_kwargs self query n)) = (units self \<noteq> None)"
  "(''extra_snippets'' \<in> fst ` set (search_kwargs self query n)) = (extra_snippets self \<noteq> None)"
  by (auto simp add: search_kwargs_def opt_str_def opt_bool_def opt_int_def py_or_def
        split: option.splits)

lemma search_kwargs_count_key: "''count'' \<in> fst ` set (search_kwargs self query n)"
  using search_kwargs_count [of self query n] by (metis domI dom_map_of_conv_image_fst)

lemma configured_has_key: "\<not> key_missing (example_self\<lparr>num_results := Some c\<rparr>)"
  by (simp add: key_missing_def example_self_simps opt_str_def)

lemma parse_results_top_level_list:
  "parse_results (PList xs)
     = Inl (Exn ''AttributeError''
              (quoted ''list'' @ '' object has no attribute '' @ quoted ''get''))"
  by (simp add: parse_results_def parse_web_results_def and_then_def py_get_def)

lemma result_dict_of_dict:
  "result_dict_of (PDict kv) =
     Inr (PDict ([(''url'', dict_get kv ''url'' PNone),
                  (''title'', dict_get kv ''title'' PNone),
                  (''description'', dict_get kv ''description'' PNone)]
                 @ (if truthy (dict_get kv ''extra_snippets'' PNone)
                    then [(''extra_snippets'', dict_get kv ''extra_snippets'' PNone)]
                    else [])))"
  by (simp add: result_dict_of_def and_then_def py_get_def)

lemma parse_web_dicts:
  "parse_web (map PDict entries) parsed =
     Inr (parsed @ map (\<lambda>kv. PDict ([(''url'', dict_get kv ''url'' PNone),
                  (''title'', dict_get kv ''title'' PNone),
                  (''description'', dict_get kv ''description'' PNone)]
                 @ (if truthy (dict_get kv ''extra_snippets'' PNone)
                    then [(''extra_snippets'', dict_get kv ''extra_snippets'' PNone)]
                    else []))) entries)"
proof (induction entries arbitrary: parsed)
  case Nil
  then show ?case by simp
next
  case (Cons kv entries)
  show ?case
    by (simp only: list.map parse_web.simps result_dict_of_dict and_then_def sum.case
          Cons.IH append_assoc append_Cons append_Nil)
qed

lemma parse_web_results_dicts:
  assumes "dict_get doc ''web'' (PDict []) = PDict web"
    and "dict_get web ''results'' (PList []) = PList (map PDict entries)"
  shows "parse_web_results (PDict doc) =
     Inr (map (\<lambda>kv. PDict ([(''url'', dict_get kv ''url'' PNone),
                  (''title'', dict_get kv ''title'' PNone),
                  (''description'', dict_get kv ''description'' PNone)]
                 @ (if truthy (dict_get kv ''extra_snippets'' PNone)
                    then [(''extra_snippets'', dict_get kv ''extra_snippets'' PNone)]
                    else []))) entries)"
  using assms
  by (simp add: parse_web_results_def and_then_def py_get_def py_iter_def parse_web_dicts)

lemma parse_summarizer_absent:
  "map_of doc ''summarizer'' = None \<Longrightarrow> parse_summarizer (PDict doc) parsed = Inr parsed"
  by (simp add: parse_summarizer_def and_then_def py_get_def dict_get_def)

lemma parse_summarizer_falsy:
  "\<not> truthy (dict_get doc ''summarizer'' (PDict [])) \<Longrightarrow>
   parse_summarizer (PDict doc) parsed = Inr parsed"
  by (simp add: parse_summarizer_def and_then_def py_get_def)

lemma parse_summarizer_dict:
  "dict_get doc ''summarizer'' (PDict []) = PDict sd \<Longrightarrow> sd \<noteq> [] \<Longrightarrow>
   parse_summarizer (PDict doc) parsed =
     Inr (parsed @ [PDict [(''summarizer'', PDict (summary_dict_of sd))]])"
  by (simp add: parse_summarizer_def and_then_def py_get_def)

lemma summary_dict_of_explicit:
  "summary_dict_of sd =
     [(''type'', dict_get sd ''type'' PNone),
      (''status'', dict_get sd ''status'' PNone),
      (''title'', dict_get sd ''title'' PNone),
      (''summary'', dict_get sd ''summary'' (PList [])),
      (''followups'', dict_get sd ''followups'' (PList []))]
     @ (case map_of sd ''enrichments'' of None \<Rightarrow> [] | Some v \<Rightarrow> [(''enrichments'', v)])
     @ (case map_of sd ''entities_infos'' of None \<Rightarrow> [] | Some v \<Rightarrow> [(''entities_infos'', v)])"
  by (simp add: summary_dict_of_def Let_def split: option.splits)

lemma search_brave_ok:
  assumes "\<not> key_missing self"
    and "tr (build_request self query n) = Inr resp"
    and "raise_for_status resp = None"
    and "json resp = Inr v"
    and "parse_results v = Inr ps"
  shows "fst (search_brave self query n tr w) = json_dumps (PList ps)"
  using assms by (simp add: search_brave_fst search_brave_try_fst)

lemma parse_results_empty_snippets:
  "parse_results (PDict [(''web'', PDict [(''results'',
       PList [PDict (paris_entry @ [(''extra_snippets'', PList [])])])])])
   = Inr [PDict paris_entry]"
  by (simp add: parse_results_def parse_web_results_def parse_summarizer_def and_then_def
        py_get_def py_iter_def dict_get_def result_dict_of_def paris_entry_def)

lemma parse_results_status_only:
  "parse_results (PDict [(''summarizer'', PDict [(''status'', PStr ''complete'')])])
   = Inr [PDict [(''summarizer'',
            PDict [(''type'', PNone), (''status'', PStr ''complete''), (''title'', PNone),
                   (''summary'', PList []), (''followups'', PList [])])]]"
  by (simp add: parse_results_def parse_web_results_def parse_summarizer_def and_then_def
        py_get_def py_iter_def dict_get_def summary_dict_of_def)

lemma parse_summarizer_explicit:
  assumes "truthy (dict_get doc ''summarizer'' (PDict []))
           \<longrightarrow> (\<exists>sd. dict_get doc ''summarizer'' (PDict []) = PDict sd)"
  shows "parse_summarizer (PDict doc) parsed =
     Inr (parsed @
       (case dict_get doc ''summarizer'' (PDict []) of
          PDict sd \<Rightarrow>
            if sd = [] then [] else [PDict [(''summarizer'', PDict (summary_dict_of sd))]]
        | _ \<Rightarrow> []))"
proof (cases "truthy (dict_get doc ''summarizer'' (PDict []))")
  case True
  with assms obtain sd where sd: "dict_get doc ''summarizer'' (PDict []) = PDict sd"
    by blast
  with True have "sd \<noteq> []" by simp
  with sd show ?thesis by (simp add: parse_summarizer_dict)
next
  case False
  then have "parse_summarizer (PDict doc) parsed = Inr parsed"
    by (rule parse_summarizer_falsy)
  with False show ?thesis
    by (cases "dict_get doc ''summarizer'' (PDict [])") simp_all
qed

lemma search_brave_respond_error:
  assumes "\<not> key_missing self" and "parse_results v = Inl e"
  shows "fst (search_brave self query n (respond v) w) = ''Error: '' @ exn_str e"
  using assms by (simp add: search_brave_fst search_brave_try_fst respond_def)

lemma parse_results_sibling_int:
  "parse_results (PDict [(''web'', PDict [(''results'',
       PList [PDict [(''url'', PStr ''https://x.com'')], PInt 3])])])
   = Inl (Exn ''AttributeError''
            (quoted ''int'' @ '' object has no attribute '' @ quoted ''get''))"
  by (simp add: parse_results_def parse_web_results_def and_then_def py_get_def py_iter_def
        dict_get_def result_dict_of_def)

lemma search_brave_respond:
  assumes "\<not> key_missing self" and "parse_results v = Inr ps"
  shows "fst (search_brave self query n (respond v) w) = json_dumps (PList ps)"
  using assms by (simp add: search_brave_fst search_brave_try_fst respond_def)

text \<open>The encoder on small values, the first being the array of one web result.\<close>

lemma json_dumps_paris:
  "json_dumps (PList [PDict paris_entry]) =
     ''['' @ [CHR 0x0A] @
     ''    {'' @ [CHR 0x0A] @
     ''        '' @ [CHR 0x22] @ ''url'' @ [CHR 0x22] @ '': ''
                  @ [CHR 0x22] @ ''https://x.com'' @ [CHR 0x22] @ '','' @ [CHR 0x0A] @
     ''        '' @ [CHR 0x22] @ ''title'' @ [CHR 0x22] @ '': ''
                  @ [CHR 0x22] @ ''Paris'' @ [CHR 0x22] @ '','' @ [CHR 0x0A] @
     ''        '' @ [CHR 0x22] @ ''description'' @ [CHR 0x22] @ '': ''
                  @ [CHR 0x22] @ ''Capital of France'' @ [CHR 0x22] @ [CHR 0x0A] @
     ''    }'' @ [CHR 0x0A] @
     '']''"
  by code_simp

lemma json_dumps_scalars:
  "json_dumps (PList []) = ''[]''"
  "json_dumps (PInt (- 120)) = ''-120''"
  "json_dumps (PList [PNone, PBool True, PInt 7]) =
     ''['' @ [CHR 0x0A] @ ''    null,'' @ [CHR 0x0A] @ ''    true,'' @ [CHR 0x0A] @ ''    7''
     @ [CHR 0x0A] @ '']''"
  by code_simp+

section \<open>Delegation\<close>

text \<open>
  Claim C7. \<^verbatim>\<open>run(query, num_results)\<close> returns exactly what
  \<^verbatim>\<open>search_brave(query, num_results)\<close> returns, for every client, query, count,
  upstream behaviour and starting state, and leaves the same state behind; the same
  holds when \<^verbatim>\<open>num_results\<close> is left to its default, which is 10 in both.
\<close>

theorem run_is_search_brave:
  "run self query n tr w = search_brave self query n tr w
   \<and> run_1 self query tr w = search_brave_1 self query tr w"
  by (simp add: run_def run_1_def search_brave_1_def)

section \<open>Missing credential\<close>

text \<open>
  Claim C2. When no API key is supplied at construction (the argument is None or the
  empty string) and none can be read from the environment (the variable is unset or
  empty), \<^verbatim>\<open>search_brave\<close> returns the sentinel string and leaves the state as it
  found it: no request is sent, whatever the transport would have done, and no
  exception is raised.
\<close>

theorem missing_key_sentinel:
  assumes "arg_api_key a = None \<or> arg_api_key a = Some ''''"
    and "getenv ''BRAVE_SEARCH_API_KEY'' = None \<or> getenv ''BRAVE_SEARCH_API_KEY'' = Some ''''"
  shows "search_brave (fst (BraveSearch_init getenv a w0)) query n tr w
           = (''Please set the BRAVE_SEARCH_API_KEY'', w)"
  using assms
  by (auto simp add: search_brave_def key_missing_def BraveSearch_init_def opt_str_def Let_def)

theorem missing_key_sentinel_witness:
  "search_brave (fst (BraveSearch_init no_env default_args empty_world)) ''weather'' 5
     unreachable empty_world
   = (''Please set the BRAVE_SEARCH_API_KEY'', empty_world)"
  using missing_key_sentinel [of default_args no_env empty_world "''weather''" 5 unreachable empty_world]
  by (simp add: default_args_def no_env_def)

section \<open>The request parameters\<close>

text \<open>
  Claim C9. Every call of \<^verbatim>\<open>search_brave\<close> that gets past the credential check sends
  exactly one request, and its parameter set contains \<^verbatim>\<open>q\<close> (the query) and
  \<^verbatim>\<open>count\<close>, whatever the configuration: \<^verbatim>\<open>count\<close> is the call's
  \<^verbatim>\<open>num_results\<close> when the client-level count is unset or zero, and that argument is
  10 when the caller leaves it out.
\<close>

theorem request_has_q_and_count:
  assumes "\<not> key_missing self"
  shows "sent (snd (search_brave self query n tr w)) = sent w @ [build_request self query n]
       \<and> map_of (params (build_request self query n)) ''q'' = Some (PStr query)
       \<and> map_of (params (build_request self query n)) ''count''
           = Some (PInt (if num_results self = None \<or> num_results self = Some 0 then n
                         else the (num_results self)))
       \<and> sent (snd (search_brave_1 self query tr w))
           = sent w @ [build_request self query 10]"
  using assms
  by (auto simp add: search_brave_sent search_brave_1_def default_num_results_def
        build_request_def search_kwargs_count search_kwargs_q split: option.splits)

theorem request_has_q_and_count_witness:
  "sent (snd (search_brave example_self ''weather'' 5 unreachable empty_world))
     = [build_request example_self ''weather'' 5]
   \<and> map_of (params (build_request example_self ''weather'' 5)) ''q'' = Some (PStr ''weather'')
   \<and> map_of (params (build_request example_self ''weather'' 5)) ''count'' = Some (PInt 5)
   \<and> sent (snd (search_brave_1 example_self ''weather'' unreachable empty_world))
       = [build_request example_self ''weather'' 10]"
  using request_has_q_and_count [OF example_self_has_key, of "''weather''" 5 unreachable empty_world]
  by (simp add: example_self_simps empty_world_def)


text \<open>
  Claim C3, as amended. For each of the optional fields \<^verbatim>\<open>freshness\<close>,
  \<^verbatim>\<open>result_filter\<close>, \<^verbatim>\<open>goggles_id\<close>, \<^verbatim>\<open>units\<close> and \<^verbatim>\<open>extra_snippets\<close>
  left unset, the parameter set of the request has no key of that name, and no key of
  the parameter set carries None. The optional field \<^verbatim>\<open>num_results\<close> feeds the key
  \<^verbatim>\<open>count\<close>, which is present also when the field is unset: the call's
  \<^verbatim>\<open>num_results\<close> argument takes its place.
\<close>

theorem unset_optional_fields_omitted:
  "(freshness self = None \<longrightarrow> ''freshness'' \<notin> fst ` set (params (build_request self query n)))
   \<and> (result_filter self = None \<longrightarrow>
        ''result_filter'' \<notin> fst ` set (params (build_request self query n)))
   \<and> (goggles_id self = None \<longrightarrow> ''goggles_id'' \<notin> fst ` set (params (build_request self query n)))
   \<and> (units self = None \<longrightarrow> ''units'' \<notin> fst ` set (params (build_request self query n)))
   \<and> (extra_snippets self = None \<longrightarrow>
        ''extra_snippets'' \<notin> fst ` set (params (build_request self query n)))
   \<and> PNone \<notin> snd ` set (params (build_request self query n))
   \<and> ''count'' \<in> fst ` set (params (build_request self query n))
   \<and> (num_results self = None \<longrightarrow>
        map_of (params (build_request self query n)) ''count'' = Some (PInt n))"
  by (simp add: build_request_def search_kwargs_optional_keys search_kwargs_no_None
        search_kwargs_count_key search_kwargs_count)

theorem unset_optional_fields_omitted_witness:
  "freshness example_self = None
   \<and> ''freshness'' \<notin> fst ` set (params (build_request example_self ''weather'' 5))
   \<and> result_filter example_self = None
   \<and> ''result_filter'' \<notin> fst ` set (params (build_request example_self ''weather'' 5))
   \<and> goggles_id example_self = None
   \<and> ''goggles_id'' \<notin> fst ` set (params (build_request example_self ''weather'' 5))
   \<and> units example_self = None
   \<and> ''units'' \<notin> fst ` set (params (build_request example_self ''weather'' 5))
   \<and> extra_snippets example_self = None
   \<and> ''extra_snippets'' \<notin> fst ` set (params (build_request example_self ''weather'' 5))
   \<and> PNone \<notin> snd ` set (params (build_request example_self ''weather'' 5))
   \<and> ''count'' \<in> fst ` set (params (build_request example_self ''weather'' 5))
   \<and> num_results example_self = None
   \<and> map_of (params (build_request example_self ''weather'' 5)) ''count'' = Some (PInt 5)"
  using unset_optional_fields_omitted [of example_self "''weather''" 5]
  by (simp add: example_self_simps)

text \<open>
  The claim as stated, for every optional field, fails at the client with all defaults:
  \<^verbatim>\<open>num_results\<close> is unset there and the request still carries \<^verbatim>\<open>count\<close>, with
  the call's argument as its value.
\<close>

theorem unset_num_results_keeps_count:
  "num_results example_self = None
   \<and> ''count'' \<in> fst ` set (params (build_request example_self ''weather'' 5))
   \<and> map_of (params (build_request example_self ''weather'' 5)) ''count'' = Some (PInt 5)"
  by (simp add: example_self_simps build_request_def search_kwargs_count_key
        search_kwargs_count)

text \<open>
  Claim C6, as amended. The \<^verbatim>\<open>count\<close> sent upstream is the client-level result count
  when one is configured and is not zero; when it is unset or zero, \<^verbatim>\<open>count\<close> is the
  call's \<^verbatim>\<open>num_results\<close> argument (\<^verbatim>\<open>self.num_results or num_results\<close>).
\<close>

theorem count_sent_upstream:
  assumes "\<not> key_missing self"
  shows "sent (snd (search_brave self query n tr w)) = sent w @ [build_request self query n]
       \<and> map_of (params (build_request self query n)) ''count''
           = Some (PInt (case num_results self of
                           None \<Rightarrow> n
                         | Some c \<Rightarrow> if c = 0 then n else c))"
  using assms by (simp add: search_brave_sent build_request_def search_kwargs_count)

theorem count_sent_upstream_witness:
  "sent (snd (search_brave (example_self\<lparr>num_results := Some 3\<rparr>) ''weather'' 5 unreachable
            empty_world))
     = [build_request (example_self\<lparr>num_results := Some 3\<rparr>) ''weather'' 5]
   \<and> map_of (params (build_request (example_self\<lparr>num_results := Some 3\<rparr>) ''weather'' 5))
        ''count'' = Some (PInt 3)"
  using count_sent_upstream [OF configured_has_key, of 3 "''weather''" 5 unreachable empty_world]
  by (simp add: empty_world_def)

text \<open>
  The claim as stated fails for a client configured with the count 0: the request
  carries the call's argument, here 5, not the configured 0.
\<close>

theorem configured_zero_count_ignored:
  "num_results (example_self\<lparr>num_results := Some 0\<rparr>) = Some 0
   \<and> map_of (params (build_request (example_self\<lparr>num_results := Some 0\<rparr>) ''weather'' 5))
        ''count'' = Some (PInt 5)
   \<and> map_of (params (build_request (example_self\<lparr>num_results := Some 0\<rparr>) ''weather'' 5))
        ''count'' \<noteq> Some (PInt 0)"
  by (simp add: build_request_def search_kwargs_count)

section \<open>Containment of failures\<close>

text \<open>
  Claim C1. With an API key present, whenever a step of the \<^verbatim>\<open>try\<close> block raises an
  exception \<open>e\<close> (the transport fails, \<^verbatim>\<open>raise_for_status\<close> rejects the status, the body
  is not JSON, or the projection of the parsed body fails), \<^verbatim>\<open>search_brave\<close> returns
  the string \<^verbatim>\<open>"Error: "\<close> followed by \<^verbatim>\<open>str(e)\<close>, after the one request it sent.
  The result of \<^verbatim>\<open>search_brave\<close> is a string in every case: the handler catches every
  \<^verbatim>\<open>Exception\<close> and nothing is raised to the caller.
\<close>

theorem exceptions_become_error_strings:
  assumes "\<not> key_missing self"
    and "tr (build_request self query n) = Inl e
         \<or> (\<exists>resp. tr (build_request self query n) = Inr resp
               \<and> (raise_for_status resp = Some e
                    \<or> raise_for_status resp = None
                       \<and> (json resp = Inl e
                            \<or> (\<exists>v. json resp = Inr v \<and> parse_results v = Inl e))))"
  shows "search_brave self query n tr w
           = (''Error: '' @ exn_str e, snd (search_brave self query n tr w))
       \<and> sent (snd (search_brave self query n tr w)) = sent w @ [build_request self query n]"
proof -
  from assms(2) have "fst (search_brave_try self query n tr w) = Inl e"
    by (auto simp add: search_brave_try_fst)
  with assms(1) have "fst (search_brave self query n tr w) = ''Error: '' @ exn_str e"
    by (simp add: search_brave_fst)
  then show ?thesis
    using assms(1) by (simp add: search_brave_sent prod_eq_iff)
qed

theorem exceptions_become_error_strings_witness:
  "fst (search_brave example_self ''weather'' 5 (respond (PList [])) empty_world)
     = ''Error: '' @ quoted ''list'' @ '' object has no attribute '' @ quoted ''get''
   \<and> fst (search_brave example_self ''weather'' 5 unreachable empty_world)
       = ''Error: connection refused''"
proof -
  have a: "fst (search_brave example_self ''weather'' 5 (respond (PList [])) empty_world)
     = ''Error: '' @ quoted ''list'' @ '' object has no attribute '' @ quoted ''get''"
    using exceptions_become_error_strings [OF example_self_has_key,
        of "respond (PList [])" "''weather''" 5
           "Exn ''AttributeError'' (quoted ''list'' @ '' object has no attribute '' @ quoted ''get'')"
           empty_world]
    by (simp add: respond_def parse_results_top_level_list prod_eq_iff)
  have b: "fst (search_brave example_self ''weather'' 5 unreachable empty_world)
       = ''Error: connection refused''"
    using exceptions_become_error_strings [OF example_self_has_key,
        of unreachable "''weather''" 5 "Exn ''ConnectionError'' ''connection refused''" empty_world]
    by (simp add: unreachable_def prod_eq_iff)
  from a b show ?thesis by simp
qed

section \<open>Determinism\<close>

text \<open>
  Claim C8. For a fixed client, query and \<^verbatim>\<open>num_results\<close>, the string returned
  depends only on what the upstream answers to the request of this call: two calls that
  get the same answer return the same string, whatever was sent or logged before them.
\<close>

theorem same_response_same_output:
  assumes "tr1 (build_request self query n) = tr2 (build_request self query n)"
  shows "fst (search_brave self query n tr1 w1) = fst (search_brave self query n tr2 w2)"
proof (cases "key_missing self")
  case True
  then show ?thesis by (simp add: search_brave_def)
next
  case False
  then show ?thesis
    using assms by (simp add: search_brave_fst search_brave_try_fst)
qed

theorem same_response_same_output_witness:
  "fst (search_brave example_self ''weather'' 5 (respond (PDict [])) empty_world)
     = fst (search_brave example_self ''weather'' 5
              (\<lambda>req. if url req = BASE_URL then respond (PDict []) req else unreachable req)
              (snd (search_brave example_self ''weather'' 5 (respond (PDict [])) empty_world)))"
proof -
  have "respond (PDict []) (build_request example_self ''weather'' 5)
      = (\<lambda>req. if url req = BASE_URL then respond (PDict []) req else unreachable req)
          (build_request example_self ''weather'' 5)"
    by (simp add: build_request_def)
  then show ?thesis by (rule same_response_same_output)
qed

section \<open>Projection of the response\<close>

text \<open>
  Claim C4, as amended. When the upstream JSON is an object with no summarizer section
  whose \<^verbatim>\<open>web.results\<close> is a list of N objects (a missing \<^verbatim>\<open>web\<close> or a missing
  \<^verbatim>\<open>results\<close> counts as the empty list), \<^verbatim>\<open>search_brave\<close> returns the JSON text of an
  array of exactly N objects in the same order. Each object has the keys \<^verbatim>\<open>url\<close>,
  \<^verbatim>\<open>title\<close> and \<^verbatim>\<open>description\<close> and nothing else, plus the key
  \<^verbatim>\<open>extra_snippets\<close> exactly when the entry's \<^verbatim>\<open>extra_snippets\<close> value is truthy
  (a non-empty list, for one): an entry that provides an empty list gets no such key.
\<close>

theorem web_results_projected:
  assumes "\<not> key_missing self"
    and "tr (build_request self query n) = Inr resp"
    and "raise_for_status resp = None"
    and "json resp = Inr (PDict doc)"
    and "map_of doc ''summarizer'' = None"
    and "dict_get doc ''web'' (PDict []) = PDict web"
    and "dict_get web ''results'' (PList []) = PList (map PDict entries)"
  shows "fst (search_brave self query n tr w) =
     json_dumps (PList (map (\<lambda>entry.
        PDict ([(''url'', dict_get entry ''url'' PNone),
                (''title'', dict_get entry ''title'' PNone),
                (''description'', dict_get entry ''description'' PNone)]
               @ (if truthy (dict_get entry ''extra_snippets'' PNone)
                  then [(''extra_snippets'', dict_get entry ''extra_snippets'' PNone)]
                  else []))) entries))"
proof -
  have "parse_results (PDict doc) =
     Inr (map (\<lambda>entry.
        PDict ([(''url'', dict_get entry ''url'' PNone),
                (''title'', dict_get entry ''title'' PNone),
                (''description'', dict_get entry ''description'' PNone)]
               @ (if truthy (dict_get entry ''extra_snippets'' PNone)
                  then [(''extra_snippets'', dict_get entry ''extra_snippets'' PNone)]
                  else []))) entries)"
    using assms(5) parse_web_results_dicts [OF assms(6) assms(7)]
    by (simp add: parse_results_def and_then_def parse_summarizer_absent)
  with assms(1-4) show ?thesis by (rule search_brave_ok)
qed

theorem web_results_projected_witness:
  "fst (search_brave example_self ''capital of France'' 10
          (respond (PDict [(''web'', PDict [(''results'',
              PList [PDict paris_entry,
                     PDict [(''title'', PStr ''Lyon''), (''rank'', PInt 2),
                            (''extra_snippets'', PList [PStr ''on the Rhone''])]])])]))
          empty_world)
   = json_dumps (PList [PDict paris_entry,
                        PDict [(''url'', PNone), (''title'', PStr ''Lyon''),
                               (''description'', PNone),
                               (''extra_snippets'', PList [PStr ''on the Rhone''])]])"
  using web_results_projected [OF example_self_has_key, of
      "respond (PDict [(''web'', PDict [(''results'',
              PList [PDict paris_entry,
                     PDict [(''title'', PStr ''Lyon''), (''rank'', PInt 2),
                            (''extra_snippets'', PList [PStr ''on the Rhone''])]])])])"
      "''capital of France''" 10
      "\<lparr>raise_for_status = None, json = Inr (PDict [(''web'', PDict [(''results'',
              PList [PDict paris_entry,
                     PDict [(''title'', PStr ''Lyon''), (''rank'', PInt 2),
                            (''extra_snippets'', PList [PStr ''on the Rhone''])]])])])\<rparr>"
      "[(''web'', PDict [(''results'',
              PList [PDict paris_entry,
                     PDict [(''title'', PStr ''Lyon''), (''rank'', PInt 2),
                            (''extra_snippets'', PList [PStr ''on the Rhone''])]])])]"
      "[(''results'',
              PList [PDict paris_entry,
                     PDict [(''title'', PStr ''Lyon''), (''rank'', PInt 2),
                            (''extra_snippets'', PList [PStr ''on the Rhone''])]])]"
      "[paris_entry, [(''title'', PStr ''Lyon''), (''rank'', PInt 2),
                            (''extra_snippets'', PList [PStr ''on the Rhone''])]]"
      empty_world]
  by (simp add: respond_def dict_get_def paris_entry_def)


text \<open>
  The claim as stated fails for an entry whose \<^verbatim>\<open>extra_snippets\<close> is the empty list:
  the source entry provides the list, and the output object has only the three keys.
\<close>

theorem empty_extra_snippets_dropped:
  "map_of (paris_entry @ [(''extra_snippets'', PList [])]) ''extra_snippets'' = Some (PList [])
   \<and> fst (search_brave example_self ''capital of France'' 10
          (respond (PDict [(''web'', PDict [(''results'',
              PList [PDict (paris_entry @ [(''extra_snippets'', PList [])])])])]))
          empty_world)
     = json_dumps (PList [PDict paris_entry])
   \<and> fst (search_brave example_self ''capital of France'' 10
          (respond (PDict [(''web'', PDict [(''results'',
              PList [PDict (paris_entry @ [(''extra_snippets'', PList [])])])])]))
          empty_world)
     \<noteq> json_dumps (PList [PDict (paris_entry @ [(''extra_snippets'', PList [])])])"
proof -
  have out: "fst (search_brave example_self ''capital of France'' 10
          (respond (PDict [(''web'', PDict [(''results'',
              PList [PDict (paris_entry @ [(''extra_snippets'', PList [])])])])]))
          empty_world)
     = json_dumps (PList [PDict paris_entry])"
    by (rule search_brave_respond [OF example_self_has_key parse_results_empty_snippets])
  have "json_dumps (PList [PDict paris_entry])
     \<noteq> json_dumps (PList [PDict (paris_entry @ [(''extra_snippets'', PList [])])])"
    by (simp add: json_dumps_def paris_entry_def newline_indent_def encode_str_def
          escape_char_def)
  with out show ?thesis by (simp add: paris_entry_def)
qed

text \<open>
  Claim C5, as amended. When the upstream JSON is an object whose \<^verbatim>\<open>summarizer\<close> is a
  non-empty object and whose web results project without error, the last element of the
  array that \<^verbatim>\<open>search_brave\<close> returns is \<^verbatim>\<open>{"summarizer": S}\<close>. \<open>S\<close> always has the
  keys \<^verbatim>\<open>type\<close>, \<^verbatim>\<open>status\<close> and \<^verbatim>\<open>title\<close> (the source's value, null when the
  source has no such key), \<^verbatim>\<open>summary\<close> and \<^verbatim>\<open>followups\<close> (the source's value, the
  empty list when the source has no such key), then \<^verbatim>\<open>enrichments\<close> and
  \<^verbatim>\<open>entities_infos\<close> exactly when those keys exist in the source, each with the
  source's value; no other key of the source is copied.
\<close>

theorem summarizer_appended:
  assumes "\<not> key_missing self"
    and "tr (build_request self query n) = Inr resp"
    and "raise_for_status resp = None"
    and "json resp = Inr (PDict doc)"
    and "parse_web_results (PDict doc) = Inr web_objects"
    and "map_of doc ''summarizer'' = Some (PDict sd)"
    and "sd \<noteq> []"
  shows "fst (search_brave self query n tr w) =
     json_dumps (PList (web_objects @
       [PDict [(''summarizer'',
          PDict ([(''type'', dict_get sd ''type'' PNone),
                  (''status'', dict_get sd ''status'' PNone),
                  (''title'', dict_get sd ''title'' PNone),
                  (''summary'', dict_get sd ''summary'' (PList [])),
                  (''followups'', dict_get sd ''followups'' (PList []))]
                 @ (case map_of sd ''enrichments'' of
                      None \<Rightarrow> [] | Some v \<Rightarrow> [(''enrichments'', v)])
                 @ (case map_of sd ''entities_infos'' of
                      None \<Rightarrow> [] | Some v \<Rightarrow> [(''entities_infos'', v)])))]]))"
proof -
  from assms(6) have "dict_get doc ''summarizer'' (PDict []) = PDict sd"
    by (simp add: dict_get_def)
  with assms(5,7) have "parse_results (PDict doc) =
      Inr (web_objects @ [PDict [(''summarizer'', PDict (summary_dict_of sd))]])"
    by (simp add: parse_results_def and_then_def parse_summarizer_dict)
  with assms(1-4) have "fst (search_brave self query n tr w) =
      json_dumps (PList (web_objects @ [PDict [(''summarizer'', PDict (summary_dict_of sd))]]))"
    by (rule search_brave_ok)
  then show ?thesis by (simp only: summary_dict_of_explicit)
qed

theorem summarizer_appended_witness:
  "fst (search_brave example_self ''capital of France'' 10
          (respond (PDict [(''web'', PDict [(''results'', PList [PDict paris_entry])]),
                           (''summarizer'',
                              PDict [(''type'', PStr ''summarizer''),
                                     (''key'', PStr ''k1''),
                                     (''summary'', PList [PStr ''Paris.'']),
                                     (''enrichments'', PDict [(''images'', PList [])])])]))
          empty_world)
   = json_dumps (PList [PDict paris_entry,
        PDict [(''summarizer'',
          PDict [(''type'', PStr ''summarizer''), (''status'', PNone), (''title'', PNone),
                 (''summary'', PList [PStr ''Paris.'']), (''followups'', PList []),
                 (''enrichments'', PDict [(''images'', PList [])])])]])"
proof -
  have web: "parse_web_results
       (PDict [(''web'', PDict [(''results'', PList [PDict paris_entry])]),
               (''summarizer'',
                  PDict [(''type'', PStr ''summarizer''),
                         (''key'', PStr ''k1''),
                         (''summary'', PList [PStr ''Paris.'']),
                         (''enrichments'', PDict [(''images'', PList [])])])])
     = Inr [PDict paris_entry]"
    by (simp add: parse_web_results_def and_then_def py_get_def py_iter_def dict_get_def
          result_dict_of_def paris_entry_def)
  show ?thesis
    using summarizer_appended [OF example_self_has_key _ _ _ web, of
      "respond (PDict [(''web'', PDict [(''results'', PList [PDict paris_entry])]),
                           (''summarizer'',
                              PDict [(''type'', PStr ''summarizer''),
                                     (''key'', PStr ''k1''),
                                     (''summary'', PList [PStr ''Paris.'']),
                                     (''enrichments'', PDict [(''images'', PList [])])])])"
      "''capital of France''" 10
      "\<lparr>raise_for_status = None, json = Inr
          (PDict [(''web'', PDict [(''results'', PList [PDict paris_entry])]),
                           (''summarizer'',
                              PDict [(''type'', PStr ''summarizer''),
                                     (''key'', PStr ''k1''),
                                     (''summary'', PList [PStr ''Paris.'']),
                                     (''enrichments'', PDict [(''images'', PList [])])])])\<rparr>"
      "[(''type'', PStr ''summarizer''), (''key'', PStr ''k1''),
        (''summary'', PList [PStr ''Paris.'']),
        (''enrichments'', PDict [(''images'', PList [])])]"
      empty_world]
    by (simp add: respond_def dict_get_def)
qed

text \<open>
  The claim as stated, that only the fields present in the source summarizer are
  reflected, fails for a summarizer that has \<^verbatim>\<open>status\<close> alone: the output object also
  has \<^verbatim>\<open>type\<close>, \<^verbatim>\<open>title\<close>, \<^verbatim>\<open>summary\<close> and \<^verbatim>\<open>followups\<close>.
\<close>

theorem absent_summarizer_fields_reflected:
  "map_of [(''status'', PStr ''complete'')] ''type'' = None
   \<and> fst (search_brave example_self ''capital of France'' 10
            (respond (PDict [(''summarizer'', PDict [(''status'', PStr ''complete'')])]))
            empty_world)
     = json_dumps (PList [PDict [(''summarizer'',
            PDict [(''type'', PNone), (''status'', PStr ''complete''), (''title'', PNone),
                   (''summary'', PList []), (''followups'', PList [])])]])
   \<and> fst (search_brave example_self ''capital of France'' 10
            (respond (PDict [(''summarizer'', PDict [(''status'', PStr ''complete'')])]))
            empty_world)
     \<noteq> json_dumps (PList [PDict [(''summarizer'', PDict [(''status'', PStr ''complete'')])]])"
proof -
  have out: "fst (search_brave example_self ''capital of France'' 10
            (respond (PDict [(''summarizer'', PDict [(''status'', PStr ''complete'')])]))
            empty_world)
     = json_dumps (PList [PDict [(''summarizer'',
            PDict [(''type'', PNone), (''status'', PStr ''complete''), (''title'', PNone),
                   (''summary'', PList []), (''followups'', PList [])])]])"
    by (rule search_brave_respond [OF example_self_has_key parse_results_status_only])
  have "json_dumps (PList [PDict [(''summarizer'',
            PDict [(''type'', PNone), (''status'', PStr ''complete''), (''title'', PNone),
                   (''summary'', PList []), (''followups'', PList [])])]])
     \<noteq> json_dumps (PList [PDict [(''summarizer'', PDict [(''status'', PStr ''complete'')])]])"
    by (simp add: json_dumps_def newline_indent_def encode_str_def escape_char_def)
  with out show ?thesis by simp
qed

text \<open>
  Claim C10, as amended. When the upstream JSON is an object whose \<^verbatim>\<open>web\<close> is an
  object or missing, whose \<^verbatim>\<open>web.results\<close> is a list of objects or missing, and whose
  summarizer, if truthy, is an object, \<^verbatim>\<open>search_brave\<close> succeeds whatever keys the
  entries have: it returns the JSON text of the array of the projected entries, in
  order, followed by the summarizer element when the summarizer is a non-empty object;
  and every one of \<^verbatim>\<open>url\<close>, \<^verbatim>\<open>title\<close>, \<^verbatim>\<open>description\<close> that an entry lacks is a
  key of that entry's output object, mapped to null.
\<close>

theorem missing_fields_are_null:
  assumes "\<not> key_missing self"
    and "tr (build_request self query n) = Inr resp"
    and "raise_for_status resp = None"
    and "json resp = Inr (PDict doc)"
    and "dict_get doc ''web'' (PDict []) = PDict web"
    and "dict_get web ''results'' (PList []) = PList (map PDict entries)"
    and "truthy (dict_get doc ''summarizer'' (PDict []))
         \<longrightarrow> (\<exists>sd. dict_get doc ''summarizer'' (PDict []) = PDict sd)"
  shows "fst (search_brave self query n tr w) =
     json_dumps (PList
       (map (\<lambda>entry.
          PDict ([(''url'', dict_get entry ''url'' PNone),
                  (''title'', dict_get entry ''title'' PNone),
                  (''description'', dict_get entry ''description'' PNone)]
                 @ (if truthy (dict_get entry ''extra_snippets'' PNone)
                    then [(''extra_snippets'', dict_get entry ''extra_snippets'' PNone)]
                    else []))) entries
        @ (case dict_get doc ''summarizer'' (PDict []) of
             PDict sd \<Rightarrow>
               if sd = [] then [] else [PDict [(''summarizer'', PDict (summary_dict_of sd))]]
           | _ \<Rightarrow> [])))
     \<and> (\<forall>entry\<in>set entries. \<forall>k\<in>{''url'', ''title'', ''description''}.
           map_of entry k = None \<longrightarrow>
           map_of ([(''url'', dict_get entry ''url'' PNone),
                    (''title'', dict_get entry ''title'' PNone),
                    (''description'', dict_get entry ''description'' PNone)]
                   @ (if truthy (dict_get entry ''extra_snippets'' PNone)
                      then [(''extra_snippets'', dict_get entry ''extra_snippets'' PNone)]
                      else [])) k = Some PNone)"
proof -
  have "parse_results (PDict doc) =
     Inr (map (\<lambda>entry.
          PDict ([(''url'', dict_get entry ''url'' PNone),
                  (''title'', dict_get entry ''title'' PNone),
                  (''description'', dict_get entry ''description'' PNone)]
                 @ (if truthy (dict_get entry ''extra_snippets'' PNone)
                    then [(''extra_snippets'', dict_get entry ''extra_snippets'' PNone)]
                    else []))) entries
        @ (case dict_get doc ''summarizer'' (PDict []) of
             PDict sd \<Rightarrow>
               if sd = [] then [] else [PDict [(''summarizer'', PDict (summary_dict_of sd))]]
           | _ \<Rightarrow> []))"
    by (simp only: parse_results_def parse_web_results_dicts [OF assms(5) assms(6)]
          and_then_def sum.case parse_summarizer_explicit [OF assms(7)])
  with assms(1-4) have out: "fst (search_brave self query n tr w) =
     json_dumps (PList
       (map (\<lambda>entry.
          PDict ([(''url'', dict_get entry ''url'' PNone),
                  (''title'', dict_get entry ''title'' PNone),
                  (''description'', dict_get entry ''description'' PNone)]
                 @ (if truthy (dict_get entry ''extra_snippets'' PNone)
                    then [(''extra_snippets'', dict_get entry ''extra_snippets'' PNone)]
                    else []))) entries
        @ (case dict_get doc ''summarizer'' (PDict []) of
             PDict sd \<Rightarrow>
               if sd = [] then [] else [PDict [(''summarizer'', PDict (summary_dict_of sd))]]
           | _ \<Rightarrow> [])))"
    by (rule search_brave_ok)
  have "\<forall>entry\<in>set entries. \<forall>k\<in>{''url'', ''title'', ''description''}.
           map_of entry k = None \<longrightarrow>
           map_of ([(''url'', dict_get entry ''url'' PNone),
                    (''title'', dict_get entry ''title'' PNone),
                    (''description'', dict_get entry ''description'' PNone)]
                   @ (if truthy (dict_get entry ''extra_snippets'' PNone)
                      then [(''extra_snippets'', dict_get entry ''extra_snippets'' PNone)]
                      else [])) k = Some PNone"
    by (auto simp add: dict_get_def)
  with out show ?thesis by blast
qed

theorem missing_fields_are_null_witness:
  "fst (search_brave example_self ''capital of France'' 10
          (respond (PDict [(''web'', PDict [(''results'',
              PList [PDict [(''url'', PStr ''https://x.com'')], PDict paris_entry])])]))
          empty_world)
   = json_dumps (PList [PDict [(''url'', PStr ''https://x.com''), (''title'', PNone),
                               (''description'', PNone)],
                        PDict paris_entry])
   \<and> map_of [(''url'', PStr ''https://x.com'')] ''title'' = None
   \<and> map_of [(''url'', PStr ''https://x.com'')] ''description'' = None
   \<and> map_of [(''url'', PStr ''https://x.com''), (''title'', PNone), (''description'', PNone)]
        ''title'' = Some PNone
   \<and> map_of [(''url'', PStr ''https://x.com''), (''title'', PNone), (''description'', PNone)]
        ''description'' = Some PNone"
proof -
  have hyp: "truthy (dict_get [(''web'', PDict [(''results'',
              PList [PDict [(''url'', PStr ''https://x.com'')], PDict paris_entry])])]
              ''summarizer'' (PDict []))
         \<longrightarrow> (\<exists>sd. dict_get [(''web'', PDict [(''results'',
              PList [PDict [(''url'', PStr ''https://x.com'')], PDict paris_entry])])]
              ''summarizer'' (PDict []) = PDict sd)"
    by (simp add: dict_get_def)
  show ?thesis
    using missing_fields_are_null [OF example_self_has_key _ _ _ _ _ hyp, of
      "respond (PDict [(''web'', PDict [(''results'',
              PList [PDict [(''url'', PStr ''https://x.com'')], PDict paris_entry])])])"
      "''capital of France''" 10
      "\<lparr>raise_for_status = None, json = Inr (PDict [(''web'', PDict [(''results'',
              PList [PDict [(''url'', PStr ''https://x.com'')], PDict paris_entry])])])\<rparr>"
      "[(''results'',
              PList [PDict [(''url'', PStr ''https://x.com'')], PDict paris_entry])]"
      "[[(''url'', PStr ''https://x.com'')], paris_entry]"
      empty_world]
    by (simp add: respond_def dict_get_def paris_entry_def)
qed

text \<open>
  The claim as stated, for every entry that lacks a field, fails when such an entry
  stands beside an entry that is not an object: the loop raises at the sibling and the
  call returns the error string, so the entry that lacks \<^verbatim>\<open>title\<close> gets no output
  object.
\<close>

theorem entry_beside_non_object_fails:
  "map_of [(''url'', PStr ''https://x.com'')] ''title'' = None
   \<and> fst (search_brave example_self ''capital of France'' 10
            (respond (PDict [(''web'', PDict [(''results'',
                PList [PDict [(''url'', PStr ''https://x.com'')], PInt 3])])]))
            empty_world)
     = ''Error: '' @ quoted ''int'' @ '' object has no attribute '' @ quoted ''get''"
  using search_brave_respond_error [OF example_self_has_key parse_results_sibling_int,
      of "''capital of France''" 10 empty_world]
  by simp


end
